theory Spec2Isabelle
  imports Complex_Main
begin

section \<open>The Python the script relies on\<close>

text \<open>
  \<^verbatim>\<open>simulations/GPTplot.py\<close> is module-level code: literals, one \<^verbatim>\<open>if\<close>, seven
  \<^verbatim>\<open>for\<close> statements and calls into matplotlib. The model keeps the order of the file.
  A call into matplotlib is recorded as a value of type \<open>call\<close>, the figure under
  construction is the list of calls made so far, and the one exception the script's own
  code can raise, an out-of-range list index, is a value: \<open>Inl (IndexError, fig)\<close> carries
  the calls already made when it was raised.

  The float literals of the source (\<^verbatim>\<open>0.5\<close>, \<^verbatim>\<open>1.3\<close>, ...) are read as the decimal
  fractions they denote, in \<open>rat\<close>; Python's unbounded integers are \<open>int\<close>.
\<close>

datatype error = IndexError

definition py_index :: "'a list \<Rightarrow> int \<Rightarrow> error + 'a" where
  \<comment> \<open>\<^verbatim>\<open>xs[i]\<close>: a negative index counts from the end, anything outside raises.\<close>
  "py_index xs i =
     (if 0 \<le> i \<and> i < int (length xs) then Inr (xs ! nat i)
      else if i < 0 \<and> - int (length xs) \<le> i then Inr (xs ! nat (int (length xs) + i))
      else Inl IndexError)"

definition py_slice_from :: "'a list \<Rightarrow> int \<Rightarrow> 'a list" where
  \<comment> \<open>\<^verbatim>\<open>xs[s:]\<close>: a negative start counts from the end; the start is clamped, never an error.\<close>
  "py_slice_from xs s =
     (let n = int (length xs);
          lo = (if s < 0 then max 0 (n + s) else min n s)
      in drop (nat lo) xs)"

definition py_range :: "int \<Rightarrow> int list" where
  \<comment> \<open>\<^verbatim>\<open>range(n)\<close>\<close>
  "py_range n = [0..n - 1]"

definition py_range_from :: "int \<Rightarrow> int \<Rightarrow> int list" where
  \<comment> \<open>\<^verbatim>\<open>range(start, stop)\<close>\<close>
  "py_range_from start stop = [start..stop - 1]"

definition py_range_step :: "int \<Rightarrow> int \<Rightarrow> int \<Rightarrow> int list" where
  \<comment> \<open>\<^verbatim>\<open>range(start, stop, step)\<close> for a positive step, the only use in the script.\<close>
  "py_range_step start stop step = [x \<leftarrow> [start..stop - 1]. (x - start) mod step = 0]"

definition py_enumerate :: "'a list \<Rightarrow> (nat \<times> 'a) list" where
  \<comment> \<open>\<^verbatim>\<open>enumerate(xs)\<close>\<close>
  "py_enumerate xs = List.enumerate 0 xs"

definition digit_char :: "nat \<Rightarrow> char" where
  "digit_char d = ''0123456789'' ! d"

fun str_nat :: "nat \<Rightarrow> string" where
  "str_nat n = (if n < 10 then [digit_char n] else str_nat (n div 10) @ [digit_char (n mod 10)])"

definition str_int :: "int \<Rightarrow> string" where
  \<comment> \<open>\<^verbatim>\<open>str(i)\<close>, as an f-string formats an integer.\<close>
  "str_int i = (if i < 0 then CHR ''-'' # str_nat (nat (- i)) else str_nat (nat i))"

section \<open>Drawing calls\<close>

datatype colour = Named string | Tab20 nat

record rectangle =
  rect_xy :: "rat \<times> rat"
  rect_width :: rat
  rect_height :: rat
  linestyle :: "string option"
  linewidth :: rat
  edgecolor :: colour
  facecolor :: colour

record bbox_props =
  bbox_facecolor :: colour
  bbox_edgecolor :: colour
  boxstyle :: string

record text_props =
  ha :: string
  va :: string
  fontsize :: rat
  fontweight :: "string option"
  text_color :: colour
  bbox :: "bbox_props option"

record arrowprops =
  arrowstyle :: string
  arrow_color :: colour
  lw :: rat

datatype call =
    Subplots "rat \<times> rat"
  | Set_xlim rat rat
  | Set_ylim rat rat
  | Axis string
  | Add_patch rectangle
  | Text rat rat string text_props
  | Annotate string "rat \<times> rat" "rat \<times> rat" arrowprops
  | Set_xticks "int list"
  | Set_yticks "int list"
  | Set_yticklabels "string list"
  | Grid bool
  | Tight_layout
  | Show

definition is_add_patch :: "call \<Rightarrow> bool" where
  "is_add_patch c = (case c of Add_patch r \<Rightarrow> True | _ \<Rightarrow> False)"


definition is_gray_arrow :: "call \<Rightarrow> bool" where
  \<comment> \<open>The arrows of lines 78 to 83 are the only gray ones.\<close>
  "is_gray_arrow c =
     (case c of Annotate s xy xytext props \<Rightarrow> arrow_color props = Named ''gray'' | _ \<Rightarrow> False)"



type_synonym figure = "call list"

type_synonym outcome = "(error \<times> figure) + figure"

primrec for_each :: "'a list \<Rightarrow> ('a \<Rightarrow> figure \<Rightarrow> outcome) \<Rightarrow> figure \<Rightarrow> outcome" where
  \<comment> \<open>A \<^verbatim>\<open>for\<close> loop over a finite sequence: the body runs once per element, in order,
      and an exception in the body ends the loop.\<close>
  "for_each [] body fig = Inr fig"
| "for_each (x # xs) body fig =
     (case body x fig of Inl raised \<Rightarrow> Inl raised | Inr fig' \<Rightarrow> for_each xs body fig')"

definition and_then :: "outcome \<Rightarrow> (figure \<Rightarrow> outcome) \<Rightarrow> outcome" where
  \<comment> \<open>Statement sequencing: the next statement runs only if nothing was raised.\<close>
  "and_then r next_stmt = (case r of Inl raised \<Rightarrow> Inl raised | Inr fig \<Rightarrow> next_stmt fig)"

definition calls_of :: "outcome \<Rightarrow> figure" where
  \<comment> \<open>The calls that were made, whether the run completed or was cut short.\<close>
  "calls_of r = (case r of Inl (e, fig) \<Rightarrow> fig | Inr fig \<Rightarrow> fig)"

definition added_by :: "(figure \<Rightarrow> outcome) \<Rightarrow> figure \<Rightarrow> figure" where
  \<comment> \<open>The calls a part of the script makes when it starts from the figure \<open>fig\<close>.\<close>
  "added_by phase fig = drop (length fig) (calls_of (phase fig))"

section \<open>The literals of the script (lines 6 to 21, 38 and 39)\<close>

definition colors :: "colour list" where
  \<comment> \<open>\<^verbatim>\<open>plt.cm.tab20.colors\<close>: matplotlib's palette of twenty colours, each entry
      represented by its position in the palette.\<close>
  "colors = map Tab20 [0..<20]"

definition num_layers :: int where
  "num_layers = 12"

definition tokens :: "string list" where
  "tokens = [''[the]'', ''[ e]'', ''[iffel]'', ''[ tower]'', ''[ is]'', ''[ located]'', ''[ in]'']"

definition accum_is :: "string list" where
  "accum_is = [''is built high'', ''is built high'', ''is built high, in Paris'',
               ''is built high, in Paris'', ''is built high, in Paris'', ''is built high, in Paris'']"

definition accum_is_positions :: "int list" where
  "accum_is_positions = [5, 6, 7, 8, 9, 10, 11]"

definition accum_in :: "string list" where
  "accum_in = [''is in?'', ''is in?'', ''is in?'', ''is in Paris'']"

definition accum_in_positions :: "int list" where
  "accum_in_positions = [8, 9, 10, 11]"

definition box_width :: rat where
  "box_width = 0.8"

definition box_height :: rat where
  "box_height = 0.8 / 4"

section \<open>Right alignment (lines 23 to 29)\<close>

definition start_index_of :: "int \<Rightarrow> string list \<Rightarrow> int" where
  \<comment> \<open>Line 24.\<close>
  "start_index_of seq_length toks = seq_length - int (length toks)"

definition right_align :: "int \<Rightarrow> string list \<Rightarrow> string list \<times> int" where
  \<comment> \<open>Lines 24 to 29: the pair is the values of \<^verbatim>\<open>tokens\<close> and \<^verbatim>\<open>start_index\<close> afterwards.\<close>
  "right_align seq_length toks =
     (let start_index = start_index_of seq_length toks
      in if start_index < 0 then (py_slice_from toks (- seq_length), 0)
         else (toks, start_index))"


section \<open>The grid of rectangles (lines 41 to 53)\<close>

definition grid_rect :: "colour \<Rightarrow> colour \<Rightarrow> int \<Rightarrow> int \<Rightarrow> rectangle" where
  "grid_rect edge face layer token =
     \<lparr>rect_xy = (of_int token + (1 - box_width) / 2, of_int layer + (1 - box_height) / 2),
      rect_width = box_width,
      rect_height = box_height,
      linestyle = None,
      linewidth = 0.5,
      edgecolor = edge,
      facecolor = face\<rparr>"

definition grid_cell :: "int \<Rightarrow> int \<Rightarrow> rectangle" where
  \<comment> \<open>The rectangle of one (layer, token) pair, with the palette entry the loop looks up.\<close>
  "grid_cell layer token =
     grid_rect (Tab20 (nat (layer mod 12))) (Tab20 (nat (layer mod 12))) layer token"

definition grid_body :: "int \<Rightarrow> int \<Rightarrow> figure \<Rightarrow> outcome" where
  "grid_body layer token fig =
     (case py_index colors (layer mod 12) of
        Inl e \<Rightarrow> Inl (e, fig)
      | Inr edge \<Rightarrow>
          (case py_index colors (layer mod 12) of
             Inl e \<Rightarrow> Inl (e, fig)
           | Inr face \<Rightarrow> Inr (fig @ [Add_patch (grid_rect edge face layer token)])))"

definition grid_loop :: "int \<Rightarrow> int \<Rightarrow> figure \<Rightarrow> outcome" where
  "grid_loop nl seq_length =
     for_each (py_range nl) (\<lambda>layer. for_each (py_range seq_length) (grid_body layer))"

section \<open>Token labels (lines 55 to 67)\<close>

definition token_label :: "int \<Rightarrow> string \<Rightarrow> call" where
  "token_label token_index token =
     Text (of_int token_index + 0.5) 0.3 token
       \<lparr>ha = ''center'', va = ''top'', fontsize = 18, fontweight = Some ''bold'',
        text_color = Named ''red'', bbox = None\<rparr>"

definition token_labels :: "string list \<Rightarrow> int \<Rightarrow> figure \<Rightarrow> outcome" where
  "token_labels toks start_index =
     for_each (py_enumerate toks)
       (\<lambda>(i, token) fig.
          let token_index = start_index + int i
          in Inr (fig @ [token_label token_index token]))"

section \<open>Arrows between tokens (lines 69 to 83)\<close>

definition arrow_between :: "int \<Rightarrow> int \<Rightarrow> rat \<Rightarrow> call" where
  \<comment> \<open>The \<^verbatim>\<open>ax.annotate\<close> call of lines 78 to 83: \<open>xy\<close> is the head, \<open>xytext\<close> the tail.\<close>
  "arrow_between from_index to_index y =
     Annotate [] (of_int to_index + 0.5, y) (of_int from_index + 0.5, y)
       \<lparr>arrowstyle = ''->'', arrow_color = Named ''gray'', lw = 1.5\<rparr>"

definition horizontal_arrows :: "int \<Rightarrow> string list \<Rightarrow> int \<Rightarrow> figure \<Rightarrow> outcome" where
  "horizontal_arrows nl toks start_index =
     for_each (py_range (nl - 1))
       (\<lambda>layer.
          let y_pos = 0.8 + of_int layer;
              from_index = 0
          in for_each (py_enumerate toks)
               (\<lambda>(i, target_token) fig.
                  if target_token = ''[the]'' then Inr fig
                  else let to_index = start_index + int i
                       in Inr (fig @ [arrow_between from_index to_index (y_pos + of_nat i / 20)])))"

definition h_arrow :: "int \<Rightarrow> int \<Rightarrow> nat \<Rightarrow> call" where
  \<comment> \<open>The arrow the loop draws for \<open>layer\<close> and the token at position \<open>i\<close>, when it draws one.\<close>
  "h_arrow start_index layer i =
     arrow_between 0 (start_index + int i) (0.8 + of_int layer + of_nat i / 20)"

definition arrow_head :: "call \<Rightarrow> (rat \<times> rat) option" where
  "arrow_head c = (case c of Annotate s xy xytext props \<Rightarrow> Some xy | _ \<Rightarrow> None)"

definition arrow_tail :: "call \<Rightarrow> (rat \<times> rat) option" where
  "arrow_tail c = (case c of Annotate s xy xytext props \<Rightarrow> Some xytext | _ \<Rightarrow> None)"

section \<open>Arrows between layers (lines 84 to 92)\<close>

definition v_arrow :: "int \<Rightarrow> int \<Rightarrow> call" where
  "v_arrow layer token =
     Annotate [] (of_int token + 0.5, of_int layer + 1.3) (of_int token + 0.5, of_int layer + 0.7)
       \<lparr>arrowstyle = ''->'', arrow_color = Named ''black'', lw = 1.5\<rparr>"

definition vertical_arrows :: "int \<Rightarrow> int \<Rightarrow> figure \<Rightarrow> outcome" where
  "vertical_arrows nl seq_length =
     for_each (py_range nl)
       (\<lambda>layer. for_each (py_range seq_length) (\<lambda>token fig. Inr (fig @ [v_arrow layer token])))"

section \<open>The two annotation callouts (lines 94 to 118)\<close>

definition is_label :: "int \<Rightarrow> string \<Rightarrow> call" where
  "is_label token_index token =
     Text 4.5 (of_int token_index + 1.2) token
       \<lparr>ha = ''center'', va = ''top'', fontsize = 16, fontweight = None,
        text_color = Named ''white'',
        bbox = Some \<lparr>bbox_facecolor = Named ''black'', bbox_edgecolor = Named ''none'',
                      boxstyle = ''round,pad=0.3''\<rparr>\<rparr>"

definition in_label :: "int \<Rightarrow> string \<Rightarrow> call" where
  "in_label token_index token =
     Text 6.5 (of_int token_index + 0.2) token
       \<lparr>ha = ''center'', va = ''top'', fontsize = 16, fontweight = None,
        text_color = Named ''white'',
        bbox = Some \<lparr>bbox_facecolor = Named ''red'', bbox_edgecolor = Named ''none'',
                      boxstyle = ''round,pad=0.3''\<rparr>\<rparr>"

definition annotate_is :: "string list \<Rightarrow> int list \<Rightarrow> figure \<Rightarrow> outcome" where
  "annotate_is labels positions =
     for_each (py_enumerate labels)
       (\<lambda>(i, token) fig.
          case py_index positions (int i) of
            Inl e \<Rightarrow> Inl (e, fig)
          | Inr token_index \<Rightarrow> Inr (fig @ [is_label token_index token]))"

definition annotate_in :: "string list \<Rightarrow> int list \<Rightarrow> figure \<Rightarrow> outcome" where
  "annotate_in labels positions =
     for_each (py_enumerate labels)
       (\<lambda>(i, token) fig.
          case py_index positions (int i) of
            Inl e \<Rightarrow> Inl (e, fig)
          | Inr token_index \<Rightarrow> Inr (fig @ [in_label token_index token]))"

section \<open>The closing calls (lines 120 to 161)\<close>

definition paris_label :: "int \<Rightarrow> call" where
  "paris_label seq_length =
     Text (of_int seq_length + 0.7) 11.65 '' => [Paris]''
       \<lparr>ha = ''center'', va = ''top'', fontsize = 16, fontweight = Some ''bold'',
        text_color = Named ''red'', bbox = None\<rparr>"

definition vector_box :: call where
  "vector_box =
     Add_patch \<lparr>rect_xy = (6.25, 0.75), rect_width = 0.5, rect_height = 0.5,
                linestyle = Some ''--'', linewidth = 2,
                edgecolor = Named ''red'', facecolor = Named ''none''\<rparr>"

definition vector_label :: call where
  "vector_label =
     Text 6.5 1.2 (''Vector'' @ [CHR 0x0A] @ ''Maschine'')
       \<lparr>ha = ''center'', va = ''top'', fontsize = 12, fontweight = None,
        text_color = Named ''red'', bbox = None\<rparr>"

definition closing_calls :: "int \<Rightarrow> int \<Rightarrow> figure" where
  "closing_calls nl seq_length =
     [paris_label seq_length, vector_box, vector_label,
      Set_xticks (py_range_step 0 seq_length 4),
      Set_yticks (py_range_from 0 nl),
      Set_yticklabels (map (\<lambda>i. ''Layer '' @ str_int (i + 1)) (py_range nl)),
      Grid False, Tight_layout, Show]"

section \<open>The script\<close>

definition run :: "int \<Rightarrow> string list \<Rightarrow> string list \<Rightarrow> int list \<Rightarrow> string list \<Rightarrow> int list \<Rightarrow> outcome" where
  \<comment> \<open>The module body, top to bottom, with its six literals as parameters.\<close>
  "run nl toks0 labels_is positions_is labels_in positions_in =
     (let seq_length = int (length toks0);
          (toks, start_index) = right_align seq_length toks0;
          fig = [Subplots (10, 6),
                 Set_xlim (- 0.5) (of_int seq_length + 0.5),
                 Set_ylim (- 0.3) (of_int nl),
                 Axis ''off'']
      in and_then (grid_loop nl seq_length fig) (\<lambda>fig.
         and_then (token_labels toks start_index fig) (\<lambda>fig.
         and_then (horizontal_arrows nl toks start_index fig) (\<lambda>fig.
         and_then (vertical_arrows nl seq_length fig) (\<lambda>fig.
         and_then (annotate_is labels_is positions_is fig) (\<lambda>fig.
         and_then (annotate_in labels_in positions_in fig) (\<lambda>fig.
         Inr (fig @ closing_calls nl seq_length))))))))"

definition script :: outcome where
  "script = run num_layers tokens accum_is accum_is_positions accum_in accum_in_positions"

section \<open>Facts about the Python primitives and the loop combinator\<close>

lemma length_py_range: "length (py_range n) = nat n"
  by (simp add: py_range_def)

lemma set_py_range: "set (py_range n) = {0..<n}"
  by (auto simp: py_range_def)

lemma distinct_py_range: "distinct (py_range n)"
  by (simp add: py_range_def)

lemma length_py_enumerate: "length (py_enumerate xs) = length xs"
  by (simp add: py_enumerate_def)

lemma py_enumerate_zip: "py_enumerate xs = zip [0..<length xs] xs"
  by (simp add: py_enumerate_def enumerate_eq_zip)

lemma py_index_in_range:
  "0 \<le> i \<Longrightarrow> i < int (length xs) \<Longrightarrow> py_index xs i = Inr (xs ! nat i)"
  by (simp add: py_index_def)

lemma py_index_past_end:
  "int (length xs) \<le> i \<Longrightarrow> py_index xs i = Inl IndexError"
  by (simp add: py_index_def)

lemma for_each_appends:
  "(\<And>x fig. x \<in> set xs \<Longrightarrow> body x fig = Inr (fig @ g x)) \<Longrightarrow>
   for_each xs body fig = Inr (fig @ concat (map g xs))"
  by (induction xs arbitrary: fig) simp_all

lemma for_each_append:
  "for_each (xs @ ys) body fig =
     (case for_each xs body fig of Inl raised \<Rightarrow> Inl raised | Inr fig' \<Rightarrow> for_each ys body fig')"
  by (induction xs arbitrary: fig) (simp_all split: sum.splits)

section \<open>What each loop draws\<close>

lemma for_each_one:
  "(\<And>x fig. x \<in> set xs \<Longrightarrow> body x fig = Inr (fig @ [f x])) \<Longrightarrow>
   for_each xs body fig = Inr (fig @ map f xs)"
  using for_each_appends [of xs body "\<lambda>x. [f x]" fig] by (simp add: concat_map_singleton)

lemma colors_lookup: "py_index colors (layer mod 12) = Inr (Tab20 (nat (layer mod 12)))"
proof -
  have lt: "layer mod 12 < 20"
    using pos_mod_bound [of 12 layer] by linarith
  then have "nat (layer mod 12) < 20"
    by simp
  with lt show ?thesis
    by (simp add: py_index_def colors_def)
qed

lemma grid_body_appends:
  "grid_body layer token fig = Inr (fig @ [Add_patch (grid_cell layer token)])"
  by (simp add: grid_body_def colors_lookup grid_cell_def)

lemma grid_loop_eq:
  "grid_loop nl sl fig =
     Inr (fig @ concat (map (\<lambda>layer. map (\<lambda>token. Add_patch (grid_cell layer token)) (py_range sl))
                          (py_range nl)))"
  unfolding grid_loop_def
  by (rule for_each_appends) (rule for_each_one, rule grid_body_appends)

lemma length_concat_rows:
  "length (concat (map (\<lambda>x. map (f x) ys) xs)) = length xs * length ys"
  by (induction xs) simp_all

lemma vertical_arrows_eq:
  "vertical_arrows nl sl fig =
     Inr (fig @ concat (map (\<lambda>layer. map (\<lambda>token. v_arrow layer token) (py_range sl))
                          (py_range nl)))"
  unfolding vertical_arrows_def
  by (rule for_each_appends) (rule for_each_one, rule refl)

lemma token_labels_eq:
  "token_labels toks start_index fig =
     Inr (fig @ map (\<lambda>(i, token). token_label (start_index + int i) token) (py_enumerate toks))"
  unfolding token_labels_def
  by (rule for_each_one) (simp add: split_def)

lemma concat_map_if:
  "concat (map (\<lambda>x. if P x then [] else [f x]) xs) = map f (filter (\<lambda>x. \<not> P x) xs)"
  by (induction xs) simp_all

lemma horizontal_arrows_eq:
  "horizontal_arrows nl toks start_index fig =
     Inr (fig @ concat (map (\<lambda>layer. map (\<lambda>(i, t). h_arrow start_index layer i)
                                        (filter (\<lambda>(i, t). t \<noteq> ''[the]'') (py_enumerate toks)))
                          (py_range (nl - 1))))"
proof -
  have inner: "for_each (py_enumerate toks)
        (\<lambda>(i, target_token) fig.
            if target_token = ''[the]'' then Inr fig
            else Inr (fig @ [arrow_between 0 (start_index + int i)
                                (0.8 + of_int layer + of_nat i / 20)])) fig
      = Inr (fig @ map (\<lambda>(i, t). h_arrow start_index layer i)
                         (filter (\<lambda>(i, t). t \<noteq> ''[the]'') (py_enumerate toks)))" for layer fig
  proof -
    let ?P = "\<lambda>(i :: nat, t). t = ''[the]''"
    let ?f = "\<lambda>(i, t :: string). h_arrow start_index layer i"
    have "for_each (py_enumerate toks)
        (\<lambda>(i, target_token) fig.
            if target_token = ''[the]'' then Inr fig
            else Inr (fig @ [arrow_between 0 (start_index + int i)
                                (0.8 + of_int layer + of_nat i / 20)])) fig
       = Inr (fig @ concat (map (\<lambda>x. if ?P x then [] else [?f x]) (py_enumerate toks)))"
      by (rule for_each_appends) (simp add: split_def h_arrow_def)
    also have "concat (map (\<lambda>x. if ?P x then [] else [?f x]) (py_enumerate toks))
        = map ?f (filter (\<lambda>x. \<not> ?P x) (py_enumerate toks))"
      by (rule concat_map_if)
    finally show ?thesis by (simp add: split_def)
  qed
  show ?thesis
    unfolding horizontal_arrows_def Let_def
    by (rule for_each_appends) (rule inner)
qed

lemma concat_rows_product:
  "concat (map (\<lambda>x. map (f x) ys) xs) = map (\<lambda>(x, y). f x y) (List.product xs ys)"
  by (induction xs) (simp_all add: comp_def)

lemma in_set_py_enumerate:
  "(p \<in> set (py_enumerate xs)) = (fst p < length xs \<and> snd p = xs ! fst p)"
  by (auto simp: py_enumerate_def in_set_enumerate_eq)

lemma distinct_py_enumerate: "distinct (py_enumerate xs)"
  by (simp add: py_enumerate_def distinct_enumerate)

lemma length_filter_py_enumerate:
  "length (filter (\<lambda>(i, t). P t) (py_enumerate xs)) = length (filter P xs)"
proof -
  have "map snd (filter (P \<circ> snd) (py_enumerate xs)) = filter P (map snd (py_enumerate xs))"
    by (simp add: filter_map)
  also have "map snd (py_enumerate xs) = xs"
    by (simp add: py_enumerate_def)
  finally have "length (filter (P \<circ> snd) (py_enumerate xs)) = length (filter P xs)"
    by (metis length_map)
  then show ?thesis
    by (simp add: comp_def split_def)
qed

lemma grid_cell_inj:
  "(grid_cell layer token = grid_cell layer' token') = (layer = layer' \<and> token = token')"
  by (auto simp: grid_cell_def grid_rect_def)

lemma h_arrow_inj:
  "(h_arrow start_index layer i = h_arrow start_index layer' i') = (layer = layer' \<and> i = i')"
  by (auto simp: h_arrow_def arrow_between_def)


lemma distinct_grid:
  "distinct (map (\<lambda>(layer, token). Add_patch (grid_cell layer token))
               (List.product (py_range nl) (py_range sl)))"
  by (auto simp: distinct_map distinct_product distinct_py_range inj_on_def grid_cell_inj)

lemma set_horizontal_arrows:
  "set (calls_of (horizontal_arrows nl toks start_index [])) =
     {h_arrow start_index layer i | layer i.
        0 \<le> layer \<and> layer < nl - 1 \<and> i < length toks \<and> toks ! i \<noteq> ''[the]''}"
  (is "?L = ?R")
proof (rule set_eqI)
  fix c
  show "(c \<in> ?L) = (c \<in> ?R)"
  proof
    assume "c \<in> ?L"
    then obtain layer p where "layer \<in> set (py_range (nl - 1))" "p \<in> set (py_enumerate toks)"
        "snd p \<noteq> ''[the]''" "c = h_arrow start_index layer (fst p)"
      by (auto simp: horizontal_arrows_eq calls_of_def)
    then show "c \<in> ?R"
      by (auto simp: set_py_range in_set_py_enumerate)
  next
    assume "c \<in> ?R"
    then obtain layer i where c: "c = h_arrow start_index layer i"
        and "0 \<le> layer" "layer < nl - 1" "i < length toks" "toks ! i \<noteq> ''[the]''"
      by blast
    then have "layer \<in> set (py_range (nl - 1))" "(i, toks ! i) \<in> set (py_enumerate toks)"
      by (simp_all add: set_py_range in_set_py_enumerate)
    with \<open>toks ! i \<noteq> ''[the]''\<close> show "c \<in> ?L"
      unfolding c horizontal_arrows_eq calls_of_def
      by (force intro!: bexI [of _ layer] image_eqI [of _ _ "(i, toks ! i)"])
  qed
qed


lemma distinct_concat_rows:
  assumes "distinct xs" "distinct ys"
    and "\<And>x y x' y'. y \<in> set ys \<Longrightarrow> y' \<in> set ys \<Longrightarrow> f x y = f x' y' \<Longrightarrow> x = x' \<and> y = y'"
  shows "distinct (concat (map (\<lambda>x. map (f x) (filter (P x) ys)) xs))"
proof -
  have "concat (map (\<lambda>x. map (f x) (filter (P x) ys)) xs)
      = map (\<lambda>(x, y). f x y) (filter (\<lambda>(x, y). P x y) (List.product xs ys))"
    by (induction xs) (simp_all add: filter_map comp_def)
  moreover have "distinct (map (\<lambda>(x, y). f x y) (filter (\<lambda>(x, y). P x y) (List.product xs ys)))"
    using assms by (fastforce simp: distinct_map distinct_product inj_on_def)
  ultimately show ?thesis by simp
qed

lemma distinct_horizontal_arrows:
  "distinct (calls_of (horizontal_arrows nl toks start_index []))"
proof -
  have "distinct (concat (map (\<lambda>layer. map (\<lambda>p. h_arrow start_index layer (fst p))
                                (filter (\<lambda>p. snd p \<noteq> ''[the]'') (py_enumerate toks)))
                         (py_range (nl - 1))))"
  proof (rule distinct_concat_rows)
    fix layer layer' :: int and p p' :: "nat \<times> string"
    assume "p \<in> set (py_enumerate toks)" "p' \<in> set (py_enumerate toks)"
      and "h_arrow start_index layer (fst p) = h_arrow start_index layer' (fst p')"
    then show "layer = layer' \<and> p = p'"
      by (auto simp: h_arrow_inj in_set_py_enumerate prod_eq_iff)
  qed (simp_all add: distinct_py_range distinct_py_enumerate)
  then show ?thesis
    by (simp add: horizontal_arrows_eq calls_of_def split_def)
qed

lemma length_horizontal_arrows:
  "length (calls_of (horizontal_arrows nl toks start_index []))
     = nat (nl - 1) * length (filter (\<lambda>t. t \<noteq> ''[the]'') toks)"
proof -
  have "length (filter (\<lambda>(i, t). t \<noteq> ''[the]'') (py_enumerate toks))
      = length (filter (\<lambda>t. t \<noteq> ''[the]'') toks)"
    by (rule length_filter_py_enumerate)
  then show ?thesis
    by (simp add: horizontal_arrows_eq calls_of_def length_concat_rows length_py_range)
qed

section \<open>The annotation callouts and the whole script\<close>

lemma callout_loop:
  "k \<le> length positions \<Longrightarrow>
   for_each (List.enumerate k labels)
     (\<lambda>(i, token) fig.
        case py_index positions (int i) of
          Inl e \<Rightarrow> Inl (e, fig)
        | Inr token_index \<Rightarrow> Inr (fig @ [mk token_index token])) fig
   = (if length positions < k + length labels
      then Inl (IndexError, fig @ map (\<lambda>(token_index, token). mk token_index token)
                                      (zip (drop k positions) labels))
      else Inr (fig @ map (\<lambda>(token_index, token). mk token_index token)
                        (zip (drop k positions) labels)))"
proof (induction labels arbitrary: k fig)
  case Nil
  then show ?case by simp
next
  case (Cons token labels)
  note bound = \<open>k \<le> length positions\<close>
  show ?case
  proof (cases "k < length positions")
    case True
    then have "py_index positions (int k) = Inr (positions ! k)"
      by (simp add: py_index_in_range)
    moreover from True have "drop k positions = positions ! k # drop (Suc k) positions"
      by (simp add: Cons_nth_drop_Suc)
    moreover from True have "Suc k \<le> length positions"
      by simp
    ultimately show ?thesis
      using Cons.IH [of "Suc k"] by simp
  next
    case False
    then have "py_index positions (int k) = Inl IndexError"
      by (simp add: py_index_past_end)
    with False bound show ?thesis by simp
  qed
qed

lemma annotate_is_eq:
  "annotate_is labels positions fig =
     (if length positions < length labels
      then Inl (IndexError, fig @ map (\<lambda>(token_index, token). is_label token_index token)
                                      (zip positions labels))
      else Inr (fig @ map (\<lambda>(token_index, token). is_label token_index token)
                        (zip positions labels)))"
  unfolding annotate_is_def py_enumerate_def
  using callout_loop [where k = 0 and mk = is_label and positions = positions] by simp

lemma annotate_in_eq:
  "annotate_in labels positions fig =
     (if length positions < length labels
      then Inl (IndexError, fig @ map (\<lambda>(token_index, token). in_label token_index token)
                                      (zip positions labels))
      else Inr (fig @ map (\<lambda>(token_index, token). in_label token_index token)
                        (zip positions labels)))"
  unfolding annotate_in_def py_enumerate_def
  using callout_loop [where k = 0 and mk = in_label and positions = positions] by simp

lemma right_align_same_length: "right_align (int (length toks)) toks = (toks, 0)"
  by (simp add: right_align_def start_index_of_def)

lemma run_eq:
  assumes "length labels_is \<le> length positions_is" "length labels_in \<le> length positions_in"
  shows "run nl toks labels_is positions_is labels_in positions_in =
     Inr ([Subplots (10, 6),
           Set_xlim (- 0.5) (of_int (int (length toks)) + 0.5),
           Set_ylim (- 0.3) (of_int nl),
           Axis ''off'']
          @ calls_of (grid_loop nl (int (length toks)) [])
          @ calls_of (token_labels toks 0 [])
          @ calls_of (horizontal_arrows nl toks 0 [])
          @ calls_of (vertical_arrows nl (int (length toks)) [])
          @ calls_of (annotate_is labels_is positions_is [])
          @ calls_of (annotate_in labels_in positions_in [])
          @ closing_calls nl (int (length toks)))"
  using assms
  by (simp add: run_def Let_def right_align_same_length and_then_def calls_of_def
      grid_loop_eq token_labels_eq horizontal_arrows_eq vertical_arrows_eq
      annotate_is_eq annotate_in_eq)

lemma script_eq:
  "script =
     Inr ([Subplots (10, 6), Set_xlim (- 0.5) 7.5, Set_ylim (- 0.3) 12, Axis ''off'']
          @ calls_of (grid_loop 12 7 [])
          @ calls_of (token_labels tokens 0 [])
          @ calls_of (horizontal_arrows 12 tokens 0 [])
          @ calls_of (vertical_arrows 12 7 [])
          @ calls_of (annotate_is accum_is accum_is_positions [])
          @ calls_of (annotate_in accum_in accum_in_positions [])
          @ closing_calls 12 7)"
proof -
  have "length accum_is \<le> length accum_is_positions" "length accum_in \<le> length accum_in_positions"
    by (simp_all add: accum_is_def accum_is_positions_def accum_in_def accum_in_positions_def)
  then have "script = Inr ([Subplots (10, 6),
           Set_xlim (- 0.5) (of_int (int (length tokens)) + 0.5),
           Set_ylim (- 0.3) (of_int num_layers),
           Axis ''off'']
          @ calls_of (grid_loop num_layers (int (length tokens)) [])
          @ calls_of (token_labels tokens 0 [])
          @ calls_of (horizontal_arrows num_layers tokens 0 [])
          @ calls_of (vertical_arrows num_layers (int (length tokens)) [])
          @ calls_of (annotate_is accum_is accum_is_positions [])
          @ calls_of (annotate_in accum_in accum_in_positions [])
          @ closing_calls num_layers (int (length tokens)))"
    unfolding script_def by (rule run_eq)
  moreover have "int (length tokens) = 7"
    by (simp add: tokens_def)
  ultimately show ?thesis
    by (simp add: num_layers_def)
qed

lemma script_length: "length (calls_of script) = 264"
  by (simp add: script_eq calls_of_def [of "Inr x" for x] grid_loop_eq vertical_arrows_eq token_labels_eq
     length_horizontal_arrows annotate_is_eq annotate_in_eq length_concat_rows length_py_range
     length_py_enumerate closing_calls_def tokens_def accum_is_def accum_is_positions_def
     accum_in_def accum_in_positions_def)




lemma calls_of_Inr: "calls_of (Inr fig) = fig"
  by (simp add: calls_of_def)

lemma hd_token_labels:
  "toks \<noteq> [] \<Longrightarrow> hd (calls_of (token_labels toks start_index [])) = token_label start_index (hd toks)"
  by (cases toks) (simp_all add: token_labels_eq calls_of_Inr py_enumerate_def)

lemma length_grid: "length (calls_of (grid_loop nl sl [])) = nat nl * nat sl"
  by (simp add: grid_loop_eq calls_of_Inr length_concat_rows length_py_range)


lemma set_vertical_arrows:
  "set (calls_of (vertical_arrows nl sl [])) =
     {v_arrow layer token | layer token. 0 \<le> layer \<and> layer < nl \<and> 0 \<le> token \<and> token < sl}"
  by (auto simp: vertical_arrows_eq calls_of_Inr set_py_range) blast


lemma patches_grid: "filter is_add_patch (calls_of (grid_loop nl sl [])) = calls_of (grid_loop nl sl [])"
  by (auto simp: grid_loop_eq calls_of_Inr is_add_patch_def)

lemma patches_labels: "filter is_add_patch (calls_of (token_labels toks start_index [])) = []"
  by (auto simp: token_labels_eq calls_of_Inr is_add_patch_def token_label_def filter_empty_conv)

lemma patches_horizontal: "filter is_add_patch (calls_of (horizontal_arrows nl toks start_index [])) = []"
  by (auto simp: set_horizontal_arrows is_add_patch_def h_arrow_def arrow_between_def filter_empty_conv)

lemma patches_vertical: "filter is_add_patch (calls_of (vertical_arrows nl sl [])) = []"
  by (auto simp: set_vertical_arrows is_add_patch_def v_arrow_def filter_empty_conv)

lemma calls_of_annotate_is:
  "calls_of (annotate_is labels positions []) =
     map (\<lambda>(token_index, token). is_label token_index token) (zip positions labels)"
  by (simp add: annotate_is_eq calls_of_def)

lemma calls_of_annotate_in:
  "calls_of (annotate_in labels positions []) =
     map (\<lambda>(token_index, token). in_label token_index token) (zip positions labels)"
  by (simp add: annotate_in_eq calls_of_def)

lemma patches_is: "filter is_add_patch (calls_of (annotate_is labels positions [])) = []"
  by (auto simp: calls_of_annotate_is is_add_patch_def is_label_def filter_empty_conv)

lemma patches_in: "filter is_add_patch (calls_of (annotate_in labels positions [])) = []"
  by (auto simp: calls_of_annotate_in is_add_patch_def in_label_def filter_empty_conv)

lemma patches_closing: "filter is_add_patch (closing_calls nl sl) = [vector_box]"
  by (simp add: closing_calls_def is_add_patch_def paris_label_def vector_box_def vector_label_def)

lemma script_patches:
  "filter is_add_patch (calls_of script) = calls_of (grid_loop 12 7 []) @ [vector_box]"
  by (simp add: script_eq calls_of_Inr patches_grid patches_labels patches_horizontal
      patches_vertical patches_is patches_in patches_closing is_add_patch_def)

section \<open>Calls that only the top level makes\<close>





section \<open>What a loop adds to the figure it starts from\<close>

lemma added_by_horizontal:
  "added_by (horizontal_arrows nl toks start_index) fig
     = calls_of (horizontal_arrows nl toks start_index [])"
  by (simp add: added_by_def horizontal_arrows_eq calls_of_Inr)

lemma horizontal_arrows_appends:
  "horizontal_arrows nl toks start_index fig
     = Inr (fig @ added_by (horizontal_arrows nl toks start_index) fig)"
  by (simp add: added_by_def horizontal_arrows_eq calls_of_Inr)



lemma filter_all: "list_all P xs \<Longrightarrow> filter P xs = xs"
  by (simp add: list_all_iff)

lemma gray_arrows_of_loops:
  "filter is_gray_arrow (calls_of (grid_loop nl sl [])) = []"
  "filter is_gray_arrow (calls_of (token_labels toks start_index [])) = []"
  "filter is_gray_arrow (calls_of (horizontal_arrows nl toks start_index []))
     = calls_of (horizontal_arrows nl toks start_index [])"
  "filter is_gray_arrow (calls_of (vertical_arrows nl sl [])) = []"
  "filter is_gray_arrow (calls_of (annotate_is labels positions [])) = []"
  "filter is_gray_arrow (calls_of (annotate_in labels positions [])) = []"
  "filter is_gray_arrow (closing_calls nl sl) = []"
  by (auto simp: filter_empty_conv filter_id_conv is_gray_arrow_def grid_loop_eq token_labels_eq
      calls_of_Inr set_horizontal_arrows set_vertical_arrows calls_of_annotate_is
      calls_of_annotate_in token_label_def h_arrow_def arrow_between_def v_arrow_def
      is_label_def in_label_def closing_calls_def paris_label_def vector_box_def vector_label_def)

lemma script_gray_arrows:
  "filter is_gray_arrow (calls_of script) = calls_of (horizontal_arrows 12 tokens 0 [])"
  by (simp add: script_eq calls_of_Inr gray_arrows_of_loops is_gray_arrow_def)




section \<open>The claims\<close>

text \<open>
  Claim C1: each annotation position list is as long as the text list it is paired with.
  For the pair of lines 20 and 21 it is, four entries each. For the pair of lines 16 to 18
  it is not: \<^verbatim>\<open>accum_is\<close> has six labels and \<^verbatim>\<open>accum_is_positions\<close> seven rows,
  so the last row, 11, is never paired with a label. The theorem records the four
  lengths as the file has them.
\<close>

theorem accum_list_lengths:
  "length accum_is_positions = 7 \<and> length accum_is = 6 \<and>
   length accum_in_positions = 4 \<and> length accum_in = 4"
  by (simp add: accum_is_positions_def accum_is_def accum_in_positions_def accum_in_def)

text \<open>
  The loop of lines 95 to 105 enumerates the labels and indexes the positions, so a
  position list that is longer than its label list is never read past the last label.
  The script's own pair is such a pair, and the loop completes on it with six labels
  drawn.
\<close>

theorem longer_positions_counterexample:
  "length accum_is < length accum_is_positions \<and>
   \<not> isl (annotate_is accum_is accum_is_positions []) \<and>
   length (calls_of (annotate_is accum_is accum_is_positions [])) = length accum_is"
  by (simp add: annotate_is_eq calls_of_def accum_is_def accum_is_positions_def)

text \<open>
  Claim C2, as the code has it: each annotation loop raises \<^verbatim>\<open>IndexError\<close> exactly when
  the position list is shorter than the label list. It then has drawn one label per
  position, and the failing access is \<^verbatim>\<open>positions[len(positions)]\<close>. When the position list
  is as long as the label list or longer, the loop completes, one label drawn per label
  text, and the surplus positions are ignored.
\<close>

theorem annotation_loop_outcome:
  "annotate_is labels positions fig =
     (if length positions < length labels
      then Inl (IndexError, fig @ map (\<lambda>(token_index, token). is_label token_index token)
                                      (zip positions labels))
      else Inr (fig @ map (\<lambda>(token_index, token). is_label token_index token)
                        (zip positions labels))) \<and>
   annotate_in labels positions fig =
     (if length positions < length labels
      then Inl (IndexError, fig @ map (\<lambda>(token_index, token). in_label token_index token)
                                      (zip positions labels))
      else Inr (fig @ map (\<lambda>(token_index, token). in_label token_index token)
                        (zip positions labels)))"
  by (simp only: annotate_is_eq annotate_in_eq simp_thms)

theorem annotation_loop_outcome_witness:
  "annotate_is [''is in?'', ''is in Paris''] [8] [] = Inl (IndexError, [is_label 8 ''is in?'']) \<and>
   annotate_in [''is in?''] [8, 9] [] = Inr [in_label 8 ''is in?'']"
  using annotation_loop_outcome [of "[''is in?'', ''is in Paris'']" "[8]" "[]"]
    annotation_loop_outcome [of "[''is in?'']" "[8, 9]" "[]"]
  by simp



text \<open>
  Claim C4: the loop of lines 42 to 53 adds one rectangle per (layer, token) pair, in
  row-major order, all different, so \<open>num_layers * seq_length\<close> of them: 12 * 7 = 84 in
  the script. They are all the rectangles the script adds but one, the dashed box of
  lines 133 to 143, which is not part of the grid.
\<close>

theorem grid_rectangle_count:
  "grid_loop nl seq_length fig =
     Inr (fig @ map (\<lambda>(layer, token). Add_patch (grid_cell layer token))
                    (List.product (py_range nl) (py_range seq_length))) \<and>
   length (calls_of (grid_loop nl seq_length [])) = nat nl * nat seq_length \<and>
   distinct (calls_of (grid_loop nl seq_length [])) \<and>
   length (calls_of (grid_loop num_layers (int (length tokens)) [])) = 84 \<and>
   filter is_add_patch (calls_of script)
     = calls_of (grid_loop num_layers (int (length tokens)) []) @ [vector_box]"
proof -
  have "distinct (calls_of (grid_loop nl seq_length []))"
    using distinct_grid [of nl seq_length]
    by (simp add: grid_loop_eq calls_of_Inr concat_rows_product)
  moreover have "num_layers = 12" "int (length tokens) = 7"
    by (simp_all add: num_layers_def tokens_def)
  ultimately show ?thesis
    by (simp add: length_grid script_patches) (simp add: grid_loop_eq concat_rows_product)
qed



text \<open>
  Claim C6: line 11 sets \<open>seq_length\<close> to \<open>len(tokens)\<close>, and \<open>run\<close> does the same, so
  whatever the token list is, \<open>start_index\<close> is 0 at line 24, the guard of line 27 is
  false, and lines 28 and 29 leave the token list as it was.
\<close>

theorem truncation_unreachable:
  "start_index_of (int (length toks)) toks = 0 \<and>
   \<not> start_index_of (int (length toks)) toks < 0 \<and>
   right_align (int (length toks)) toks = (toks, 0)"
  by (simp add: start_index_of_def right_align_same_length)

text \<open>
  Claim C7: the script runs to its last call, \<^verbatim>\<open>plt.show()\<close>, and raises nothing on
  the way, matplotlib's own calls taken to succeed. Every loop is a recursion over a
  finite list, and every index the script computes is inside its list: the palette entry
  \<^verbatim>\<open>colors[layer % 12]\<close> for any layer, and the position of each of the six and of the
  four annotation labels.
\<close>

theorem script_completes:
  "\<not> isl script \<and> script = Inr (calls_of script) \<and>
   length (calls_of script) = 264 \<and> last (calls_of script) = Show \<and>
   (\<forall>layer. \<not> isl (py_index colors (layer mod 12))) \<and>
   list_all (\<lambda>(i, token). \<not> isl (py_index accum_is_positions (int i))) (py_enumerate accum_is) \<and>
   list_all (\<lambda>(i, token). \<not> isl (py_index accum_in_positions (int i))) (py_enumerate accum_in)"
proof -
  have "last (calls_of script) = Show"
    by (simp add: script_eq calls_of_Inr closing_calls_def)
  moreover have "list_all (\<lambda>(i, token). \<not> isl (py_index accum_is_positions (int i)))
      (py_enumerate accum_is)"
    by (simp add: py_enumerate_def accum_is_def accum_is_positions_def py_index_def)
  moreover have "list_all (\<lambda>(i, token). \<not> isl (py_index accum_in_positions (int i)))
      (py_enumerate accum_in)"
    by (simp add: py_enumerate_def accum_in_def accum_in_positions_def py_index_def)
  ultimately show ?thesis
    by (simp add: script_length colors_lookup) (simp add: script_eq calls_of_Inr)
qed

text \<open>
  Claim C9: \<^verbatim>\<open>from_index\<close> is the constant 0, so every arrow that the loop of lines 70
  to 83 adds, to any figure, has its tail in the first column, at \<open>x = 0 + 0.5\<close>, and its
  head in the column of its target. For each layer from 0 to \<^verbatim>\<open>num_layers - 2\<close> there
  is exactly one arrow to each token whose text is not \<^verbatim>\<open>[the]\<close> and none to the
  others. The script has six such tokens: the gray arrows among the calls of its run are
  the ones of this loop, 11 * 6 = 66 in total, each with its tail in the first column.
\<close>

theorem horizontal_arrow_sources:
  "horizontal_arrows nl toks start_index fig
     = Inr (fig @ added_by (horizontal_arrows nl toks start_index) fig) \<and>
   set (added_by (horizontal_arrows nl toks start_index) fig) =
     {h_arrow start_index layer i | layer i.
        0 \<le> layer \<and> layer < nl - 1 \<and> i < length toks \<and> toks ! i \<noteq> ''[the]''} \<and>
   distinct (added_by (horizontal_arrows nl toks start_index) fig) \<and>
   length (added_by (horizontal_arrows nl toks start_index) fig)
     = nat (nl - 1) * length (filter (\<lambda>t. t \<noteq> ''[the]'') toks) \<and>
   arrow_tail (h_arrow start_index layer i)
     = Some (of_int 0 + 0.5, 0.8 + of_int layer + of_nat i / 20) \<and>
   arrow_head (h_arrow start_index layer i)
     = Some (of_int (start_index + int i) + 0.5, 0.8 + of_int layer + of_nat i / 20) \<and>
   length (filter (\<lambda>t. t \<noteq> ''[the]'') tokens) = 6 \<and>
   filter is_gray_arrow (calls_of script)
     = added_by (horizontal_arrows num_layers tokens
                   (snd (right_align (int (length tokens)) tokens))) [] \<and>
   length (filter is_gray_arrow (calls_of script)) = 66 \<and>
   list_all (\<lambda>c. map_option fst (arrow_tail c) = Some (of_int 0 + 0.5))
            (filter is_gray_arrow (calls_of script))"
proof -
  have set_eq: "set (added_by (horizontal_arrows nl toks start_index) fig) =
     {h_arrow start_index layer i | layer i.
        0 \<le> layer \<and> layer < nl - 1 \<and> i < length toks \<and> toks ! i \<noteq> ''[the]''}"
    for nl toks start_index fig
    by (simp only: added_by_horizontal set_horizontal_arrows)
  have six: "length (filter (\<lambda>t. t \<noteq> ''[the]'') tokens) = 6"
    by (simp add: tokens_def)
  have gray: "filter is_gray_arrow (calls_of script)
      = added_by (horizontal_arrows num_layers tokens
                    (snd (right_align (int (length tokens)) tokens))) []"
    by (simp add: script_gray_arrows added_by_horizontal right_align_same_length num_layers_def)
  have count: "length (filter is_gray_arrow (calls_of script)) = 66"
    by (simp add: script_gray_arrows length_horizontal_arrows six)
  have tails: "list_all (\<lambda>c. map_option fst (arrow_tail c) = Some (of_int 0 + 0.5))
      (filter is_gray_arrow (calls_of script))"
  proof -
    have "map_option fst (arrow_tail (h_arrow si layer i)) = Some (of_int 0 + 0.5)" for si layer i
      by (simp add: arrow_tail_def h_arrow_def arrow_between_def)
    then show ?thesis
      unfolding gray list_all_iff set_eq by blast
  qed
  have appends: "horizontal_arrows nl toks start_index fig
     = Inr (fig @ added_by (horizontal_arrows nl toks start_index) fig)"
    by (rule horizontal_arrows_appends)
  have ends: "arrow_tail (h_arrow start_index layer i)
       = Some (of_int 0 + 0.5, 0.8 + of_int layer + of_nat i / 20)"
    "arrow_head (h_arrow start_index layer i)
       = Some (of_int (start_index + int i) + 0.5, 0.8 + of_int layer + of_nat i / 20)"
    by (simp_all add: arrow_tail_def arrow_head_def h_arrow_def arrow_between_def)
  have "distinct (added_by (horizontal_arrows nl toks start_index) fig)"
    "length (added_by (horizontal_arrows nl toks start_index) fig)
       = nat (nl - 1) * length (filter (\<lambda>t. t \<noteq> ''[the]'') toks)"
    by (simp_all only: added_by_horizontal distinct_horizontal_arrows length_horizontal_arrows)
  with appends set_eq [of nl toks start_index fig] ends six gray count tails
  show ?thesis
    by blast
qed


end
